theory Spec2Isabelle
  imports Complex_Main "HOL-Library.AList"
begin

section \<open>Python values used by the tools\<close>

text \<open>
  The exceptions the modelled code can raise. Every tool body but the currency
  conversion runs inside a bare \<^verbatim>\<open>try: ... except:\<close>, which catches all of them alike.
\<close>

datatype exn =
    KeyError | ValueError | TypeError | AttributeError | IndexError
  | ResponseError | ConnectionError | JSONDecodeError

text \<open>
  A Python float: a finite value (every finite double is a rational), the two
  infinities, or NaN. \<^verbatim>\<open>float("nan")\<close> and \<^verbatim>\<open>float("inf")\<close> succeed in Python, so they
  are values here and not errors.
\<close>

datatype pyfloat = Fin rat | PInf | NInf | NaN

text \<open>\<^verbatim>\<open>a < b\<close> on floats: false as soon as one side is NaN.\<close>

fun flt :: "pyfloat \<Rightarrow> pyfloat \<Rightarrow> bool" where
  "flt NaN _ = False"
| "flt _ NaN = False"
| "flt (Fin a) (Fin b) = (a < b)"
| "flt (Fin _) PInf = True"
| "flt (Fin _) NInf = False"
| "flt PInf _ = False"
| "flt NInf (Fin _) = True"
| "flt NInf PInf = True"
| "flt NInf NInf = False"

text \<open>\<^verbatim>\<open>a <= b\<close> on floats.\<close>

fun fle :: "pyfloat \<Rightarrow> pyfloat \<Rightarrow> bool" where
  "fle NaN _ = False"
| "fle _ NaN = False"
| "fle (Fin a) (Fin b) = (a \<le> b)"
| "fle (Fin _) PInf = True"
| "fle (Fin _) NInf = False"
| "fle PInf PInf = True"
| "fle PInf _ = False"
| "fle NInf _ = True"

text \<open>A JSON scalar as the providers deliver it; \<open>JNull\<close> is also what \<^verbatim>\<open>dict.get\<close> gives for a missing key.\<close>

datatype jval = JNull | JStr string | JNum rat

text \<open>
  A Python \<^verbatim>\<open>dict\<close> as an association list in insertion order. \<^verbatim>\<open>d.get(k)\<close> is \<open>dict_get\<close>;
  \<^verbatim>\<open>d[k] = v\<close> is \<^const>\<open>AList.update\<close>, which overwrites in place and appends a new key.
\<close>

type_synonym ('k, 'v) dict = "('k \<times> 'v) list"

definition dict_get :: "(string, jval) dict \<Rightarrow> string \<Rightarrow> jval" where
  "dict_get d k = (case map_of d k of None \<Rightarrow> JNull | Some v \<Rightarrow> v)"

text \<open>What a tool hands back to the agent: \<^verbatim>\<open>{"error": msg}\<close> or its normal value.\<close>

datatype 'a returned = Error string | Ok 'a

section \<open>The hotel best-offer tool\<close>

text \<open>
  The provider's data, with every field the code reads by subscript modelled as
  optional: \<open>None\<close> is a missing key (or a value the subscript chain cannot walk), and
  reading it raises.
\<close>

record hotel =
  hotelId :: jval

record offer =
  price_total :: "string option"
  price_currency :: "string option"
  room_description_text :: "string option"

record hotel_offer =
  hotel_name :: "string option"
  offers :: "offer list option"

record query =
  hotelIds :: "jval list"
  adults :: int
  q_checkInDate :: string
  q_checkOutDate :: string

text \<open>
  One call of \<^verbatim>\<open>hotels.by_city.get\<close>: it raises, or returns a response whose \<^verbatim>\<open>.data\<close> is
  a list of hotels or is not iterable (\<open>None\<close>).
\<close>

datatype listing = ListingRaises | Listing "hotel list option"

text \<open>
  One call of \<^verbatim>\<open>hotel_offers_search.get\<close>: it raises, returns something falsy (the case
  the retry loop tests with \<^verbatim>\<open>not req\<close>), or returns a truthy response whose \<^verbatim>\<open>.data\<close> is a
  list of hotel offers or is not iterable (\<open>None\<close>).
\<close>

datatype response = Raises | NoResult | Result "hotel_offer list option"

text \<open>
  The \<^verbatim>\<open>amadeus\<close> client. Its calls go to the network, so a call takes the state of the
  outside world and returns the next one: two calls with the same arguments may
  answer differently. \<open>float_of\<close> is Python's \<^verbatim>\<open>float\<close> on a string (\<open>None\<close>: ValueError).
\<close>

record 's amadeus =
  hotels_by_city :: "'s \<Rightarrow> string \<Rightarrow> listing \<times> 's"
  hotel_offers_search :: "'s \<Rightarrow> query \<Rightarrow> response \<times> 's"
  float_of :: "string \<Rightarrow> pyfloat option"

record offer_record =
  hotelName :: string
  offerTotalAccommodationAmount :: string
  offerCurrency :: string
  offerRoomDescription :: string
  people :: int
  checkInDate :: string
  checkOutDate :: string

text \<open>
  The retry loop of one batch,
  \<^verbatim>\<open>while not req and j < 5: j += 1; req = search(...)\<close>.
  \<open>req\<close> is \<open>None\<close> while it is falsy, \<open>Some data\<close> once a truthy response came back.
\<close>

function retry :: "'s amadeus \<Rightarrow> query \<Rightarrow> hotel_offer list option option \<Rightarrow> nat \<Rightarrow> 's
    \<Rightarrow> (exn + hotel_offer list option option) \<times> 's" where
  "retry A q req j s =
     (if req = None \<and> j < 5 then
        (case hotel_offers_search A s q of
           (Raises, s') \<Rightarrow> (Inl ResponseError, s')
         | (NoResult, s') \<Rightarrow> retry A q None (j + 1) s'
         | (Result d, s') \<Rightarrow> retry A q (Some d) (j + 1) s')
      else (Inr req, s))"
  by pat_completeness auto
termination
  by (relation "measure (\<lambda>(A, q, req, j, s). 5 - j)") auto

declare retry.simps [simp del]

text \<open>The slice \<^verbatim>\<open>ids[i : i+50]\<close>; Python slices never raise out of range.\<close>

definition batch :: "jval list \<Rightarrow> nat \<Rightarrow> jval list" where
  "batch ids i = take 50 (drop i ids)"

definition mk_query :: "jval list \<Rightarrow> nat \<Rightarrow> int \<Rightarrow> string \<Rightarrow> string \<Rightarrow> query" where
  "mk_query ids i n cin cout =
     \<lparr>hotelIds = batch ids i, adults = n, q_checkInDate = cin, q_checkOutDate = cout\<rparr>"

text \<open>
  \<^verbatim>\<open>for i in range(0, 99, 50)\<close> over the offsets still to do, \<open>hotelOffers\<close> accumulated.
  \<^verbatim>\<open>hotelOffers += req.data\<close> raises TypeError when the data is not iterable.
\<close>

fun batches :: "'s amadeus \<Rightarrow> jval list \<Rightarrow> int \<Rightarrow> string \<Rightarrow> string \<Rightarrow> nat list
    \<Rightarrow> hotel_offer list \<Rightarrow> 's \<Rightarrow> (exn + hotel_offer list) \<times> 's" where
  "batches A ids n cin cout [] hotelOffers s = (Inr hotelOffers, s)"
| "batches A ids n cin cout (i # is) hotelOffers s =
     (case retry A (mk_query ids i n cin cout) None 0 s of
        (Inl e, s') \<Rightarrow> (Inl e, s')
      | (Inr None, s') \<Rightarrow> batches A ids n cin cout is hotelOffers s'
      | (Inr (Some None), s') \<Rightarrow> (Inl TypeError, s')
      | (Inr (Some (Some d)), s') \<Rightarrow> batches A ids n cin cout is (hotelOffers @ d) s')"

text \<open>\<^verbatim>\<open>range(0, 99, 50)\<close>\<close>

definition offsets :: "nat list" where
  "offsets = [0, 50]"

text \<open>Lines 68 to 81: the listing, the identifiers, the two batches.\<close>

definition gather :: "'s amadeus \<Rightarrow> 's \<Rightarrow> string \<Rightarrow> int \<Rightarrow> string \<Rightarrow> string
    \<Rightarrow> (exn + hotel_offer list) \<times> 's" where
  "gather A s iataCityCode n cin cout =
     (case hotels_by_city A s iataCityCode of
        (ListingRaises, s') \<Rightarrow> (Inl ResponseError, s')
      | (Listing None, s') \<Rightarrow> (Inl TypeError, s')
      | (Listing (Some hs), s') \<Rightarrow> batches A (map hotelId hs) n cin cout offsets [] s')"

text \<open>The record built on a strict improvement; a missing field raises KeyError.\<close>

definition mk_offer_record :: "hotel_offer \<Rightarrow> offer \<Rightarrow> int \<Rightarrow> string \<Rightarrow> string
    \<Rightarrow> offer_record option" where
  "mk_offer_record ho off n cin cout =
     (case (hotel_name ho, price_total off, price_currency off, room_description_text off) of
        (Some nm, Some tot, Some cur, Some txt) \<Rightarrow>
          Some \<lparr>hotelName = nm, offerTotalAccommodationAmount = tot, offerCurrency = cur,
                offerRoomDescription = txt, people = n, checkInDate = cin, checkOutDate = cout\<rparr>
      | _ \<Rightarrow> None)"

text \<open>The literal \<^verbatim>\<open>1000000000000\<close> that \<open>bestprice\<close> starts from.\<close>

definition sentinel :: pyfloat where
  "sentinel = Fin 1000000000000"

type_synonym best = "pyfloat \<times> offer_record option"

text \<open>The body of the inner loop for one offer: \<open>(bestprice, bestOffer)\<close> before and after.\<close>

definition visit :: "(string \<Rightarrow> pyfloat option) \<Rightarrow> int \<Rightarrow> string \<Rightarrow> string
    \<Rightarrow> hotel_offer \<Rightarrow> offer \<Rightarrow> best \<Rightarrow> exn + best" where
  "visit fl n cin cout ho off b =
     (case price_total off of
        None \<Rightarrow> Inl KeyError
      | Some tot \<Rightarrow>
          (case fl tot of
             None \<Rightarrow> Inl ValueError
           | Some currentPrice \<Rightarrow>
               if flt currentPrice (fst b) then
                 (case mk_offer_record ho off n cin cout of
                    None \<Rightarrow> Inl KeyError
                  | Some r \<Rightarrow> Inr (currentPrice, Some r))
               else Inr b))"

text \<open>\<^verbatim>\<open>for offer in hotelOffer['offers']\<close>\<close>

fun scan_offers :: "(string \<Rightarrow> pyfloat option) \<Rightarrow> int \<Rightarrow> string \<Rightarrow> string
    \<Rightarrow> hotel_offer \<Rightarrow> offer list \<Rightarrow> best \<Rightarrow> exn + best" where
  "scan_offers fl n cin cout ho [] b = Inr b"
| "scan_offers fl n cin cout ho (off # offs) b =
     (case visit fl n cin cout ho off b of
        Inl e \<Rightarrow> Inl e
      | Inr b' \<Rightarrow> scan_offers fl n cin cout ho offs b')"

text \<open>\<^verbatim>\<open>for hotelOffer in hotelOffers\<close>\<close>

fun scan_hotels :: "(string \<Rightarrow> pyfloat option) \<Rightarrow> int \<Rightarrow> string \<Rightarrow> string
    \<Rightarrow> hotel_offer list \<Rightarrow> best \<Rightarrow> exn + best" where
  "scan_hotels fl n cin cout [] b = Inr b"
| "scan_hotels fl n cin cout (ho # hos) b =
     (case offers ho of
        None \<Rightarrow> Inl KeyError
      | Some offs \<Rightarrow>
          (case scan_offers fl n cin cout ho offs b of
             Inl e \<Rightarrow> Inl e
           | Inr b' \<Rightarrow> scan_hotels fl n cin cout hos b'))"

text \<open>
  The tool: the whole body under \<^verbatim>\<open>try\<close>, any exception turned into the error object.
  \<open>Ok None\<close> is Python's \<^verbatim>\<open>None\<close>, returned when \<open>bestOffer\<close> was never assigned.
\<close>

definition get_best_offer :: "'s amadeus \<Rightarrow> 's \<Rightarrow> string \<Rightarrow> int \<Rightarrow> string \<Rightarrow> string
    \<Rightarrow> offer_record option returned \<times> 's" where
  "get_best_offer A s iataCityCode n cin cout =
     (case gather A s iataCityCode n cin cout of
        (Inl e, s') \<Rightarrow> (Error ''No Offers Found'', s')
      | (Inr hotelOffers, s') \<Rightarrow>
          (case scan_hotels (float_of A) n cin cout hotelOffers (sentinel, None) of
             Inl e \<Rightarrow> (Error ''No Offers Found'', s')
           | Inr b \<Rightarrow> (Ok (snd b), s')))"

subsection \<open>Notions used to state the properties of the hotel tool\<close>

text \<open>The float price of an offer, when \<^verbatim>\<open>float(offer['price']['total'])\<close> does not raise.\<close>

definition price_of :: "(string \<Rightarrow> pyfloat option) \<Rightarrow> offer \<Rightarrow> pyfloat option" where
  "price_of fl off = (case price_total off of None \<Rightarrow> None | Some tot \<Rightarrow> fl tot)"

text \<open>Every offer with its hotel offer, in the order the two nested loops visit them.\<close>

definition pairs :: "hotel_offer list \<Rightarrow> (hotel_offer \<times> offer) list" where
  "pairs hos =
     concat (map (\<lambda>ho. map (Pair ho) (case offers ho of None \<Rightarrow> [] | Some offs \<Rightarrow> offs)) hos)"

text \<open>The two loops as one pass over that list; \<open>scan_hotels_pairs\<close> relates it to \<^const>\<open>scan_hotels\<close>.\<close>

fun scan_pairs :: "(string \<Rightarrow> pyfloat option) \<Rightarrow> int \<Rightarrow> string \<Rightarrow> string
    \<Rightarrow> (hotel_offer \<times> offer) list \<Rightarrow> best \<Rightarrow> exn + best" where
  "scan_pairs fl n cin cout [] b = Inr b"
| "scan_pairs fl n cin cout (x # xs) b =
     (case visit fl n cin cout (fst x) (snd x) b of
        Inl e \<Rightarrow> Inl e
      | Inr b' \<Rightarrow> scan_pairs fl n cin cout xs b')"



subsection \<open>Concrete providers\<close>

text \<open>One hotel listed; the offer search never has a result. The state counts its calls.\<close>

definition always_empty :: "nat amadeus" where
  "always_empty =
     \<lparr>hotels_by_city = (\<lambda>s c. (Listing (Some [\<lparr>hotelId = JStr ''H1''\<rparr>]), s)),
      hotel_offers_search = (\<lambda>s q. (NoResult, s + 1)),
      float_of = (\<lambda>t. None)\<rparr>"

text \<open>One hotel with a single offer, priced at exactly the initial \<open>bestprice\<close>.\<close>

definition pricey_offer :: hotel_offer where
  "pricey_offer =
     \<lparr>hotel_name = Some ''Grand'',
      offers = Some [\<lparr>price_total = Some ''1000000000000.00'', price_currency = Some ''EUR'',
                      room_description_text = Some ''Suite''\<rparr>]\<rparr>"

definition pricey :: "unit amadeus" where
  "pricey =
     \<lparr>hotels_by_city = (\<lambda>s c. (Listing (Some [\<lparr>hotelId = JStr ''H1''\<rparr>]), s)),
      hotel_offers_search =
        (\<lambda>s q. (if hotelIds q = [] then Result (Some []) else Result (Some [pricey_offer]), s)),
      float_of = (\<lambda>t. if t = ''1000000000000.00'' then Some (Fin 1000000000000) else None)\<rparr>"

text \<open>Two hotels, three offers: 120.00, then 95.50 twice.\<close>

definition three_offers :: "hotel_offer list" where
  "three_offers =
     [\<lparr>hotel_name = Some ''Alpha'',
       offers = Some [\<lparr>price_total = Some ''120.00'', price_currency = Some ''EUR'',
                       room_description_text = Some ''Double''\<rparr>,
                      \<lparr>price_total = Some ''95.50'', price_currency = Some ''EUR'',
                       room_description_text = Some ''Single''\<rparr>]\<rparr>,
      \<lparr>hotel_name = Some ''Beta'',
       offers = Some [\<lparr>price_total = Some ''95.50'', price_currency = Some ''EUR'',
                       room_description_text = Some ''Twin''\<rparr>]\<rparr>]"

definition cheap :: "unit amadeus" where
  "cheap =
     \<lparr>hotels_by_city = (\<lambda>s c. (Listing (Some [\<lparr>hotelId = JStr ''H1''\<rparr>, \<lparr>hotelId = JStr ''H2''\<rparr>]), s)),
      hotel_offers_search =
        (\<lambda>s q. (if hotelIds q = [] then Result (Some []) else Result (Some three_offers), s)),
      float_of = (\<lambda>t. if t = ''120.00'' then Some (Fin 120)
                       else if t = ''95.50'' then Some (Fin (191 / 2)) else None)\<rparr>"

text \<open>One hotel with a single offer that has no room description.\<close>

definition undescribed_offer :: hotel_offer where
  "undescribed_offer =
     \<lparr>hotel_name = Some ''Grand'',
      offers = Some [\<lparr>price_total = Some ''80.00'', price_currency = Some ''EUR'',
                      room_description_text = None\<rparr>]\<rparr>"

definition undescribed :: "unit amadeus" where
  "undescribed =
     \<lparr>hotels_by_city = (\<lambda>s c. (Listing (Some [\<lparr>hotelId = JStr ''H1''\<rparr>]), s)),
      hotel_offers_search =
        (\<lambda>s q. (if hotelIds q = [] then Result (Some []) else Result (Some [undescribed_offer]), s)),
      float_of = (\<lambda>t. if t = ''80.00'' then Some (Fin 80) else None)\<rparr>"

text \<open>Two offers, the first with the total \<^verbatim>\<open>"nan"\<close>, which \<^verbatim>\<open>float\<close> accepts.\<close>

definition nan_offers :: "hotel_offer list" where
  "nan_offers =
     [\<lparr>hotel_name = Some ''Alpha'',
       offers = Some [\<lparr>price_total = Some ''nan'', price_currency = Some ''EUR'',
                       room_description_text = Some ''Double''\<rparr>]\<rparr>,
      \<lparr>hotel_name = Some ''Beta'',
       offers = Some [\<lparr>price_total = Some ''100.00'', price_currency = Some ''EUR'',
                       room_description_text = Some ''Twin''\<rparr>]\<rparr>]"

definition with_nan :: "unit amadeus" where
  "with_nan =
     \<lparr>hotels_by_city = (\<lambda>s c. (Listing (Some [\<lparr>hotelId = JStr ''H1''\<rparr>]), s)),
      hotel_offers_search =
        (\<lambda>s q. (if hotelIds q = [] then Result (Some []) else Result (Some nan_offers), s)),
      float_of = (\<lambda>t. if t = ''nan'' then Some NaN
                       else if t = ''100.00'' then Some (Fin 100) else None)\<rparr>"

section \<open>The location resolution tool\<close>

text \<open>
  A location record. \<^verbatim>\<open>i.get('name')\<close> and \<^verbatim>\<open>i.get('iataCode')\<close> are used as they come
  (\<open>JNull\<close> when the key is missing); \<^verbatim>\<open>i.get('address')\<close> and \<^verbatim>\<open>i.get('geoCode')\<close> are used as
  mappings, and \<open>None\<close> stands for a missing key, on which the code raises.
\<close>

record city =
  city_name :: jval
  iataCode :: jval
  address :: "(string, jval) dict option"
  geoCode :: "(string, jval) dict option"

text \<open>
  One call of \<^verbatim>\<open>locations.cities.get\<close>: it raises, or returns a response whose \<^verbatim>\<open>.data\<close> is a
  list of records or is not iterable (\<open>None\<close>).
\<close>

datatype cities_response = CitiesRaises | Cities "city list option"

text \<open>
  \<^verbatim>\<open>[ i for i in cities if i.get('address').get('countryCode') == country ]\<close>; a record
  without an address raises AttributeError.
\<close>

fun filter_country :: "city list \<Rightarrow> string \<Rightarrow> exn + city list" where
  "filter_country [] country = Inr []"
| "filter_country (i # cities) country =
     (case address i of
        None \<Rightarrow> Inl AttributeError
      | Some a \<Rightarrow>
          (case filter_country cities country of
             Inl e \<Rightarrow> Inl e
           | Inr r \<Rightarrow> Inr (if dict_get a ''countryCode'' = JStr country then i # r else r)))"

text \<open>\<^verbatim>\<open>for key in d: out[key] = d.get(key)\<close>\<close>

definition copy_keys :: "(string, jval) dict \<Rightarrow> (string, jval) dict \<Rightarrow> (string, jval) dict" where
  "copy_keys d out = fold (\<lambda>key out. AList.update key (dict_get d key) out) (map fst d) out"

text \<open>The inner dictionary built for one record; iterating over a missing mapping raises.\<close>

definition entry :: "city \<Rightarrow> exn + (string, jval) dict" where
  "entry i =
     (case address i of
        None \<Rightarrow> Inl TypeError
      | Some a \<Rightarrow>
          (case geoCode i of
             None \<Rightarrow> Inl TypeError
           | Some g \<Rightarrow> Inr (copy_keys g (copy_keys a [(''name'', city_name i)]))))"

text \<open>\<^verbatim>\<open>for i in reducedCityNames\<close>, with \<open>outputDict\<close> accumulated.\<close>

fun build :: "city list \<Rightarrow> (jval, (string, jval) dict) dict
    \<Rightarrow> exn + (jval, (string, jval) dict) dict" where
  "build [] outputDict = Inr outputDict"
| "build (i # cities) outputDict =
     (case entry i of
        Inl e \<Rightarrow> Inl e
      | Inr d \<Rightarrow> build cities (AList.update (iataCode i) d outputDict))"

definition get_iata_of_city :: "(string \<Rightarrow> cities_response) \<Rightarrow> string \<Rightarrow> string
    \<Rightarrow> (jval, (string, jval) dict) dict returned" where
  "get_iata_of_city cities_get city country =
     (case cities_get city of
        CitiesRaises \<Rightarrow> Error ''The city not found (no IATA code).''
      | Cities None \<Rightarrow> Error ''The city not found (no IATA code).''
      | Cities (Some cities) \<Rightarrow>
          (case filter_country cities country of
             Inl e \<Rightarrow> Error ''The city not found (no IATA code).''
           | Inr reducedCityNames \<Rightarrow>
               (case build (if length reducedCityNames = 0 then cities else reducedCityNames) [] of
                  Inl e \<Rightarrow> Error ''The city not found (no IATA code).''
                | Inr outputDict \<Rightarrow> Ok outputDict)))"


section \<open>The currency conversion tool\<close>

text \<open>
  The parsed body of the rate provider's answer: something falsy, or a mapping whose
  \<^verbatim>\<open>'conversion_rates'\<close> entry is missing (\<open>None\<close>) or is the rate table. A rate is kept as the
  value of \<^verbatim>\<open>float(rate)\<close>, \<open>None\<close> when that call raises.
\<close>

datatype rates_data = Falsy | Payload "(string, pyfloat option) dict option"

text \<open>\<^verbatim>\<open>requests.get(url)\<close> raises, or \<^verbatim>\<open>response.json()\<close> raises, or the body is parsed.\<close>

datatype http = RequestFails | BadBody | Body rates_data

text \<open>
  The tool has no \<^verbatim>\<open>try\<close>: an exception leaves it (\<open>Inl\<close>). \<open>fmul\<close> and \<open>fstr\<close> are the float
  product and \<^verbatim>\<open>str\<close> of Python, \<open>key\<close> the secret read from \<^verbatim>\<open>userdata\<close>.
\<close>

definition get_price_in_wanted_currency :: "(string \<Rightarrow> http) \<Rightarrow> (pyfloat \<Rightarrow> pyfloat \<Rightarrow> pyfloat)
    \<Rightarrow> (pyfloat \<Rightarrow> string) \<Rightarrow> string \<Rightarrow> string \<Rightarrow> string \<Rightarrow> pyfloat \<Rightarrow> exn + string returned" where
  "get_price_in_wanted_currency requests_get fmul fstr key wantedCurrency currentCurrency price =
     (case requests_get (''https://v6.exchangerate-api.com/v6/'' @ key @ ''/latest/'' @ currentCurrency) of
        RequestFails \<Rightarrow> Inl ConnectionError
      | BadBody \<Rightarrow> Inl JSONDecodeError
      | Body Falsy \<Rightarrow> Inr (Error ''Could Not Estimate Price'')
      | Body (Payload None) \<Rightarrow> Inl KeyError
      | Body (Payload (Some conversion_rates)) \<Rightarrow>
          (case map_of conversion_rates wantedCurrency of
             None \<Rightarrow> Inr (Error ''Could Not Estimate Price'')
           | Some None \<Rightarrow> Inl ValueError
           | Some (Some x) \<Rightarrow> Inr (Ok (fstr (fmul price x)))))"

section \<open>The agent loop\<close>

text \<open>What a tool returns and what a message carries as content.\<close>

datatype pyval = PyNone | PyStr string | PyDict "(string \<times> pyval) list"

record tool_call =
  tc_name :: string
  tc_args :: "(string, jval) dict"
  tc_id :: string

datatype message =
    SystemMessage pyval
  | HumanMessage pyval
  | AIMessage pyval "tool_call list"
  | ToolMessage pyval string string

fun content :: "message \<Rightarrow> pyval" where
  "content (SystemMessage c) = c"
| "content (HumanMessage c) = c"
| "content (AIMessage c tcs) = c"
| "content (ToolMessage c nm i) = c"

text \<open>\<^verbatim>\<open>m.tool_calls\<close>: only an assistant message has the attribute.\<close>

fun tool_calls :: "message \<Rightarrow> exn + tool_call list" where
  "tool_calls (AIMessage c tcs) = Inr tcs"
| "tool_calls m = Inl AttributeError"


record agent_state =
  messages :: "message list"
  number_of_steps :: "int option"

text \<open>
  The reducer \<^verbatim>\<open>add_messages\<close> of the \<open>messages\<close> channel, from the graph library: the
  update is appended (a message replaces an earlier one only when both carry the
  same message id, and no message built here carries one).
\<close>

definition add_messages :: "message list \<Rightarrow> message list \<Rightarrow> message list" where
  "add_messages left right = left @ right"

definition apply_update :: "agent_state \<Rightarrow> message list \<Rightarrow> agent_state" where
  "apply_update state upd = state\<lparr>messages := add_messages (messages state) upd\<rparr>"

text \<open>
  A registered tool: its name, its \<^verbatim>\<open>return_direct\<close> flag and what invoking it does in
  the world \<open>'w\<close> (a raised exception, or the value returned).
\<close>

record 'w tool =
  tool_name :: string
  return_direct :: bool
  func :: "'w \<Rightarrow> (string, jval) dict \<Rightarrow> (exn + pyval) \<times> 'w"

text \<open>
  What lies outside the loop: the reasoning model bound to the tools, and the three
  tools that call providers, seen here by what an invocation hands back.
\<close>

record 'w collaborators =
  model_invoke :: "'w \<Rightarrow> message list \<Rightarrow> (exn + message) \<times> 'w"
  iata_tool :: "'w \<Rightarrow> (string, jval) dict \<Rightarrow> (exn + pyval) \<times> 'w"
  offer_tool :: "'w \<Rightarrow> (string, jval) dict \<Rightarrow> (exn + pyval) \<times> 'w"
  price_tool :: "'w \<Rightarrow> (string, jval) dict \<Rightarrow> (exn + pyval) \<times> 'w"

definition about_you :: pyval where
  "about_you = PyDict [(''agent_services_info'', PyStr ''You can search for the best hotel offers for the city you want based on your travel criteria. You can also get the offer at the currency you prefer. '')]"

definition tools :: "'w collaborators \<Rightarrow> 'w tool list" where
  "tools E =
     [\<lparr>tool_name = ''get_iata_of_city'', return_direct = False, func = iata_tool E\<rparr>,
      \<lparr>tool_name = ''get_best_offer'', return_direct = False, func = offer_tool E\<rparr>,
      \<lparr>tool_name = ''get_price_in_wanted_currency'', return_direct = False, func = price_tool E\<rparr>,
      \<lparr>tool_name = ''about_you'', return_direct = True, func = (\<lambda>w a. (Inr about_you, w))\<rparr>]"

text \<open>\<^verbatim>\<open>{tool.name: tool for tool in tools}\<close>; the names are distinct.\<close>

definition tools_by_name :: "'w collaborators \<Rightarrow> string \<Rightarrow> 'w tool option" where
  "tools_by_name E = map_of (map (\<lambda>t. (tool_name t, t)) (tools E))"

text \<open>
  A node returns the update \<^verbatim>\<open>{"messages": [...]}\<close>, or raises; \<^verbatim>\<open>state["messages"][-1]\<close>
  raises IndexError on an empty list.
\<close>

definition calling_model :: "'w collaborators \<Rightarrow> agent_state \<Rightarrow> 'w \<Rightarrow> (exn + message list) \<times> 'w" where
  "calling_model E state w =
     (case model_invoke E w (messages state) of
        (Inl e, w') \<Rightarrow> (Inl e, w')
      | (Inr model_response, w') \<Rightarrow> (Inr [model_response], w'))"

text \<open>
  The loop of \<^verbatim>\<open>calling_tools\<close> over the tool calls still to do, \<open>results\<close> accumulated. An
  unregistered name raises KeyError; an exception of the tool is not caught.
\<close>

fun dispatch :: "'w collaborators \<Rightarrow> tool_call list \<Rightarrow> message list \<Rightarrow> 'w
    \<Rightarrow> (exn + message list) \<times> 'w" where
  "dispatch E [] results w = (Inr results, w)"
| "dispatch E (tc # tcs) results w =
     (case tools_by_name E (tc_name tc) of
        None \<Rightarrow> (Inl KeyError, w)
      | Some t \<Rightarrow>
          (case func t w (tc_args tc) of
             (Inl e, w') \<Rightarrow> (Inl e, w')
           | (Inr tool_response, w') \<Rightarrow>
               dispatch E tcs (results @ [ToolMessage tool_response (tc_name tc) (tc_id tc)]) w'))"

definition calling_tools :: "'w collaborators \<Rightarrow> agent_state \<Rightarrow> 'w \<Rightarrow> (exn + message list) \<times> 'w" where
  "calling_tools E state w =
     (if messages state = [] then (Inl IndexError, w)
      else
        (case tool_calls (last (messages state)) of
           Inl e \<Rightarrow> (Inl e, w)
         | Inr tcs \<Rightarrow> dispatch E tcs [] w))"

definition continue_or_end :: "agent_state \<Rightarrow> exn + string" where
  "continue_or_end state =
     (if messages state = [] then Inl IndexError
      else
        (case tool_calls (last (messages state)) of
           Inl e \<Rightarrow> Inl e
         | Inr tcs \<Rightarrow> Inr (if tcs = [] then ''end'' else ''continue'')))"

datatype node = thought_llm | tool_set

datatype target = Node node | END

text \<open>The mapping given to \<^verbatim>\<open>add_conditional_edges\<close>.\<close>

definition path_map :: "(string \<times> target) list" where
  "path_map = [(''continue'', Node tool_set), (''end'', END)]"

text \<open>
  The compiled graph, started at a node. Entry point \<open>thought_llm\<close>; after it the
  conditional edge; after \<open>tool_set\<close> the plain edge back to \<open>thought_llm\<close>. The result
  lists the nodes run with the state after each, and ends with \<open>Inr ()\<close> at \<open>END\<close> or
  with the exception that left a node. The first argument bounds the number of nodes
  run (the graph library stops a run at its recursion limit); \<open>None\<close>: the bound was
  reached before \<open>END\<close>.
\<close>

fun run :: "nat \<Rightarrow> 'w collaborators \<Rightarrow> node \<Rightarrow> agent_state \<Rightarrow> 'w
    \<Rightarrow> ((exn + unit) \<times> (node \<times> agent_state) list \<times> 'w) option" where
  "run 0 E nd state w = None"
| "run (Suc k) E thought_llm state w =
     (case calling_model E state w of
        (Inl e, w') \<Rightarrow> Some (Inl e, [], w')
      | (Inr upd, w') \<Rightarrow>
          (let state' = apply_update state upd in
           case continue_or_end state' of
             Inl e \<Rightarrow> Some (Inl e, [(thought_llm, state')], w')
           | Inr r \<Rightarrow>
               (case map_of path_map r of
                  None \<Rightarrow> Some (Inl KeyError, [(thought_llm, state')], w')
                | Some END \<Rightarrow> Some (Inr (), [(thought_llm, state')], w')
                | Some (Node nd) \<Rightarrow>
                    (case run k E nd state' w' of
                       None \<Rightarrow> None
                     | Some (res, steps, w'') \<Rightarrow> Some (res, (thought_llm, state') # steps, w'')))))"
| "run (Suc k) E tool_set state w =
     (case calling_tools E state w of
        (Inl e, w') \<Rightarrow> Some (Inl e, [], w')
      | (Inr upd, w') \<Rightarrow>
          (let state' = apply_update state upd in
           case run k E thought_llm state' w' of
             None \<Rightarrow> None
           | Some (res, steps, w'') \<Rightarrow> Some (res, (tool_set, state') # steps, w'')))"

subsection \<open>The session adapter\<close>

definition system_prompt :: string where
  "system_prompt = ''You are a friendly Hotel Finder Agent. Use the language provided by the user, use most of the available tools at once if needed to complete the user request and do not complain regarding incompatibilities with the provided tools. The tools parameters if they are strings must be given in english. Answer in a smart way providing all the hotel offer info if it is available.''"

text \<open>
  The graph library turns a \<open>(role, content)\<close> pair into a message when the input enters
  the \<open>messages\<close> channel; a role it does not know raises ValueError.
\<close>

definition to_message :: "string \<times> string \<Rightarrow> exn + message" where
  "to_message rc =
     (if fst rc = ''system'' then Inr (SystemMessage (PyStr (snd rc)))
      else if fst rc = ''user'' \<or> fst rc = ''human'' then Inr (HumanMessage (PyStr (snd rc)))
      else if fst rc = ''assistant'' \<or> fst rc = ''ai'' then Inr (AIMessage (PyStr (snd rc)) [])
      else Inl ValueError)"

fun to_messages :: "(string \<times> string) list \<Rightarrow> exn + message list" where
  "to_messages [] = Inr []"
| "to_messages (rc # rcs) =
     (case to_message rc of
        Inl e \<Rightarrow> Inl e
      | Inr m \<Rightarrow> (case to_messages rcs of Inl e \<Rightarrow> Inl e | Inr ms \<Rightarrow> Inr (m # ms)))"

text \<open>\<open>chat_messages\<close> of \<^verbatim>\<open>predict\<close>, as the state the graph starts from.\<close>

definition inputs :: "string \<Rightarrow> (string \<times> string) list \<Rightarrow> exn + agent_state" where
  "inputs message history =
     (case to_messages ((''system'', system_prompt) # history @ [(''user'', message)]) of
        Inl e \<Rightarrow> Inl e
      | Inr ms \<Rightarrow> Inr \<lparr>messages = add_messages [] ms, number_of_steps = None\<rparr>)"

text \<open>
  \<^verbatim>\<open>predict\<close>: the states are streamed, the input first and then the state after each
  node, and the content of the last message of the last one is returned. An
  exception in the graph leaves \<^verbatim>\<open>predict\<close> as well.
\<close>

definition predict :: "nat \<Rightarrow> 'w collaborators \<Rightarrow> string \<Rightarrow> (string \<times> string) list \<Rightarrow> 'w
    \<Rightarrow> (exn + pyval) option" where
  "predict fuel E message history w =
     (case inputs message history of
        Inl e \<Rightarrow> Some (Inl e)
      | Inr state \<Rightarrow>
          (case run fuel E thought_llm state w of
             None \<Rightarrow> None
           | Some (Inl e, steps, w') \<Rightarrow> Some (Inl e)
           | Some (Inr u, steps, w') \<Rightarrow>
               Some (Inr (content (last (messages (last (state # map snd steps))))))))"

text \<open>
  A scripted reasoning model, the world counting its calls: the first answer asks
  for \<open>about_you\<close>, every later one is a plain answer. The provider tools are not used.
\<close>

definition asks_about_you :: "nat collaborators" where
  "asks_about_you =
     \<lparr>model_invoke =
        (\<lambda>w ms. (Inr (if w = 0
                       then AIMessage (PyStr [])
                              [\<lparr>tc_name = ''about_you'', tc_args = [], tc_id = ''call_1''\<rparr>]
                       else AIMessage (PyStr ''I can find hotel offers and convert prices.'') []),
                  w + 1)),
      iata_tool = (\<lambda>w a. (Inr PyNone, w)),
      offer_tool = (\<lambda>w a. (Inr PyNone, w)),
      price_tool = (\<lambda>w a. (Inr PyNone, w))\<rparr>"

section \<open>Properties of the hotel best-offer tool\<close>

subsection \<open>The order on floats\<close>

lemma flt_not_fle: "flt a b \<Longrightarrow> \<not> fle b a"
  by (cases a; cases b) auto

lemma flt_trans: "flt a b \<Longrightarrow> flt b c \<Longrightarrow> flt a c"
  by (cases a; cases b; cases c) auto

lemma not_flt_flt_not_fle: "\<not> flt a b \<Longrightarrow> flt c b \<Longrightarrow> \<not> fle a c"
  by (cases a; cases b; cases c) auto

lemma not_flt_fle: "\<not> flt q p \<Longrightarrow> q \<noteq> NaN \<Longrightarrow> p \<noteq> NaN \<Longrightarrow> fle p q"
  by (cases p; cases q) auto

lemma flt_not_NaN: "flt a b \<Longrightarrow> a \<noteq> NaN \<and> b \<noteq> NaN"
  by (cases a; cases b) auto

lemma not_fle_not_flt: "\<not> fle q p \<Longrightarrow> \<not> flt q p"
  by (cases p; cases q) auto

lemma visit_Inr:
  "visit fl n cin cout ho off b = Inr b' \<Longrightarrow>
     \<exists>q. price_of fl off = Some q \<and>
       (if flt q (fst b) then \<exists>r. mk_offer_record ho off n cin cout = Some r \<and> b' = (q, Some r)
        else b' = b)"
  by (auto simp: visit_def price_of_def split: option.splits if_splits)

lemma scan_offers_pairs:
  "scan_offers fl n cin cout ho offs b = scan_pairs fl n cin cout (map (Pair ho) offs) b"
  by (induction offs arbitrary: b) (auto split: sum.splits)

lemma scan_pairs_append:
  "scan_pairs fl n cin cout (xs @ ys) b =
     (case scan_pairs fl n cin cout xs b of Inl e \<Rightarrow> Inl e | Inr b' \<Rightarrow> scan_pairs fl n cin cout ys b')"
  by (induction xs arbitrary: b) (auto split: sum.splits)

lemma scan_hotels_pairs:
  "scan_hotels fl n cin cout hos b = Inr b' \<Longrightarrow> scan_pairs fl n cin cout (pairs hos) b = Inr b'"
proof (induction hos arbitrary: b)
  case Nil
  then show ?case by (simp add: pairs_def)
next
  case (Cons ho hos)
  from Cons.prems obtain offs b1 where o: "offers ho = Some offs"
    and s1: "scan_offers fl n cin cout ho offs b = Inr b1"
    and s2: "scan_hotels fl n cin cout hos b1 = Inr b'"
    by (auto split: option.splits sum.splits)
  have "pairs (ho # hos) = map (Pair ho) offs @ pairs hos"
    using o by (simp add: pairs_def)
  then show ?case
    using s1 Cons.IH[OF s2] by (simp add: scan_pairs_append scan_offers_pairs)
qed

lemma scan_pairs_first_min:
  assumes "scan_pairs fl n cin cout xs b = Inr b'"
  shows "(b' = b \<and> (\<forall>x\<in>set xs. \<exists>q. price_of fl (snd x) = Some q \<and> \<not> flt q (fst b))) \<or>
         (\<exists>pre x post p r. xs = pre @ x # post \<and> price_of fl (snd x) = Some p
            \<and> mk_offer_record (fst x) (snd x) n cin cout = Some r \<and> b' = (p, Some r)
            \<and> flt p (fst b)
            \<and> (\<forall>y\<in>set pre. \<exists>q. price_of fl (snd y) = Some q \<and> \<not> fle q p)
            \<and> (\<forall>y\<in>set post. \<exists>q. price_of fl (snd y) = Some q \<and> \<not> flt q p))"
  using assms
proof (induction xs arbitrary: b)
  case Nil
  then show ?case by simp
next
  case (Cons x xs)
  from Cons.prems obtain b1 where v: "visit fl n cin cout (fst x) (snd x) b = Inr b1"
    and s: "scan_pairs fl n cin cout xs b1 = Inr b'"
    by (auto split: sum.splits)
  from visit_Inr[OF v] obtain q where q: "price_of fl (snd x) = Some q"
    and upd: "if flt q (fst b) then \<exists>r. mk_offer_record (fst x) (snd x) n cin cout = Some r \<and> b1 = (q, Some r) else b1 = b"
    by blast
  note IH = Cons.IH[OF s]
  show ?case
  proof (cases "flt q (fst b)")
    case True
    with upd obtain r where r: "mk_offer_record (fst x) (snd x) n cin cout = Some r" and b1: "b1 = (q, Some r)"
      by auto
    from IH show ?thesis
    proof
      assume "b' = b1 \<and> (\<forall>x\<in>set xs. \<exists>q. price_of fl (snd x) = Some q \<and> \<not> flt q (fst b1))"
      then have "(x # xs) = [] @ x # xs \<and> price_of fl (snd x) = Some q
            \<and> mk_offer_record (fst x) (snd x) n cin cout = Some r \<and> b' = (q, Some r)
            \<and> flt q (fst b)
            \<and> (\<forall>y\<in>set []. \<exists>q'. price_of fl (snd y) = Some q' \<and> \<not> fle q' q)
            \<and> (\<forall>y\<in>set xs. \<exists>q'. price_of fl (snd y) = Some q' \<and> \<not> flt q' q)"
        using q r b1 True by simp
      then show ?thesis by blast
    next
      assume "\<exists>pre x post p r. xs = pre @ x # post \<and> price_of fl (snd x) = Some p
            \<and> mk_offer_record (fst x) (snd x) n cin cout = Some r \<and> b' = (p, Some r)
            \<and> flt p (fst b1)
            \<and> (\<forall>y\<in>set pre. \<exists>q. price_of fl (snd y) = Some q \<and> \<not> fle q p)
            \<and> (\<forall>y\<in>set post. \<exists>q. price_of fl (snd y) = Some q \<and> \<not> flt q p)"
      then obtain pre x' post p r' where xs: "xs = pre @ x' # post"
        and p: "price_of fl (snd x') = Some p"
        and r': "mk_offer_record (fst x') (snd x') n cin cout = Some r'"
        and b': "b' = (p, Some r')" and lt: "flt p (fst b1)"
        and pre: "\<forall>y\<in>set pre. \<exists>q. price_of fl (snd y) = Some q \<and> \<not> fle q p"
        and post: "\<forall>y\<in>set post. \<exists>q. price_of fl (snd y) = Some q \<and> \<not> flt q p"
        by blast
      have lt': "flt p q" using lt b1 by simp
      have "x # xs = (x # pre) @ x' # post" using xs by simp
      moreover have "flt p (fst b)" using lt' True by (rule flt_trans)
      moreover have "\<forall>y\<in>set (x # pre). \<exists>q. price_of fl (snd y) = Some q \<and> \<not> fle q p"
        using pre q flt_not_fle[OF lt'] by simp
      ultimately show ?thesis using p r' b' post by blast
    qed
  next
    case False
    with upd have b1: "b1 = b" by simp
    from IH show ?thesis
    proof
      assume "b' = b1 \<and> (\<forall>x\<in>set xs. \<exists>q. price_of fl (snd x) = Some q \<and> \<not> flt q (fst b1))"
      then show ?thesis using b1 q False by simp
    next
      assume "\<exists>pre x post p r. xs = pre @ x # post \<and> price_of fl (snd x) = Some p
            \<and> mk_offer_record (fst x) (snd x) n cin cout = Some r \<and> b' = (p, Some r)
            \<and> flt p (fst b1)
            \<and> (\<forall>y\<in>set pre. \<exists>q. price_of fl (snd y) = Some q \<and> \<not> fle q p)
            \<and> (\<forall>y\<in>set post. \<exists>q. price_of fl (snd y) = Some q \<and> \<not> flt q p)"
      then obtain pre x' post p r' where xs: "xs = pre @ x' # post"
        and p: "price_of fl (snd x') = Some p"
        and r': "mk_offer_record (fst x') (snd x') n cin cout = Some r'"
        and b': "b' = (p, Some r')" and lt: "flt p (fst b1)"
        and pre: "\<forall>y\<in>set pre. \<exists>q. price_of fl (snd y) = Some q \<and> \<not> fle q p"
        and post: "\<forall>y\<in>set post. \<exists>q. price_of fl (snd y) = Some q \<and> \<not> flt q p"
        by blast
      have lt': "flt p (fst b)" using lt b1 by simp
      have "x # xs = (x # pre) @ x' # post" using xs by simp
      moreover have "\<forall>y\<in>set (x # pre). \<exists>q. price_of fl (snd y) = Some q \<and> \<not> fle q p"
        using pre q not_flt_flt_not_fle[OF False lt'] by simp
      ultimately show ?thesis using p r' b' post lt' by blast
    qed
  qed
qed

subsection \<open>The retry loop and the calls it makes\<close>

lemma retry_step:
  "j < 5 \<Longrightarrow> retry A q None j s =
     (case hotel_offers_search A s q of
        (Raises, s') \<Rightarrow> (Inl ResponseError, s')
      | (NoResult, s') \<Rightarrow> retry A q None (j + 1) s'
      | (Result d, s') \<Rightarrow> retry A q (Some d) (j + 1) s')"
  by (subst retry.simps) simp

lemma retry_stop:
  "req \<noteq> None \<or> 5 \<le> j \<Longrightarrow> retry A q req j s = (Inr req, s)"
  by (subst retry.simps) auto


subsection \<open>The result of the search\<close>

lemma mk_offer_record_total:
  "mk_offer_record ho off n cin cout = Some r \<Longrightarrow> price_total off = Some (offerTotalAccommodationAmount r)"
  by (auto simp: mk_offer_record_def split: option.splits)

lemma scan_offers_unchanged:
  "\<forall>off\<in>set offs. \<exists>p. price_of fl off = Some p \<and> \<not> flt p (fst b) \<Longrightarrow>
     scan_offers fl n cin cout ho offs b = Inr b"
  by (induction offs) (auto simp: visit_def price_of_def split: option.splits)

lemma scan_hotels_unchanged:
  "\<forall>ho\<in>set hos. offers ho \<noteq> None \<Longrightarrow>
   \<forall>x\<in>set (pairs hos). \<exists>p. price_of fl (snd x) = Some p \<and> \<not> flt p (fst b) \<Longrightarrow>
     scan_hotels fl n cin cout hos b = Inr b"
proof (induction hos)
  case Nil
  then show ?case by simp
next
  case (Cons ho hos)
  then obtain offs where o: "offers ho = Some offs" by auto
  have p: "pairs (ho # hos) = map (Pair ho) offs @ pairs hos" using o by (simp add: pairs_def)
  have "\<forall>off\<in>set offs. \<exists>p. price_of fl off = Some p \<and> \<not> flt p (fst b)"
  proof
    fix off
    assume "off \<in> set offs"
    then have "(ho, off) \<in> set (pairs (ho # hos))" using p by simp
    from Cons.prems(2)[rule_format, OF this]
    show "\<exists>p. price_of fl off = Some p \<and> \<not> flt p (fst b)" by simp
  qed
  then have "scan_offers fl n cin cout ho offs b = Inr b" by (rule scan_offers_unchanged)
  moreover have "scan_hotels fl n cin cout hos b = Inr b"
    using Cons.IH Cons.prems p by auto
  ultimately show ?case using o by simp
qed

lemma get_best_offer_cases:
  "gather A s c n cin cout = (Inr hos, s') \<Longrightarrow>
     get_best_offer A s c n cin cout =
       (case scan_hotels (float_of A) n cin cout hos (sentinel, None) of
          Inl e \<Rightarrow> (Error ''No Offers Found'', s') | Inr b \<Rightarrow> (Ok (snd b), s'))"
  by (simp add: get_best_offer_def)

lemma get_best_offer_Some:
  assumes "fst (get_best_offer A s c n cin cout) = Ok (Some r)"
  shows "\<exists>hos s' p. gather A s c n cin cout = (Inr hos, s')
           \<and> scan_hotels (float_of A) n cin cout hos (sentinel, None) = Inr (p, Some r)"
  using assms
  by (auto simp: get_best_offer_def split: prod.splits sum.splits)

text \<open>
  Claim C10. \<open>bestprice\<close> starts at the literal \<open>1000000000000\<close> and is only replaced on a
  strict improvement. So when the search raises nothing and every retrieved offer is
  priced at or above \<open>10^12\<close>, no offer is selected and the tool returns \<^verbatim>\<open>None\<close>, which is
  neither an offer record nor the error object; and whatever the search, a returned
  offer record has a price strictly below \<open>10^12\<close>, so an offer at or above it is
  never returned, even when it is the only one.
\<close>

theorem sentinel_bound:
  "(gather A s c n cin cout = (Inr hos, s') \<longrightarrow>
      (\<forall>ho\<in>set hos. offers ho \<noteq> None) \<longrightarrow>
      (\<forall>x\<in>set (pairs hos). \<exists>p. price_of (float_of A) (snd x) = Some p \<and> fle sentinel p) \<longrightarrow>
      get_best_offer A s c n cin cout = (Ok None, s'))
   \<and> (\<forall>r. fst (get_best_offer A s c n cin cout) = Ok (Some r) \<longrightarrow>
         (\<exists>p. float_of A (offerTotalAccommodationAmount r) = Some p
            \<and> flt p sentinel \<and> \<not> fle sentinel p))"
proof (intro conjI impI allI)
  assume g: "gather A s c n cin cout = (Inr hos, s')"
    and o: "\<forall>ho\<in>set hos. offers ho \<noteq> None"
    and p: "\<forall>x\<in>set (pairs hos). \<exists>p. price_of (float_of A) (snd x) = Some p \<and> fle sentinel p"
  have "\<forall>x\<in>set (pairs hos). \<exists>p. price_of (float_of A) (snd x) = Some p \<and> \<not> flt p (fst (sentinel, None::offer_record option))"
    using p flt_not_fle by fastforce
  from scan_hotels_unchanged[OF o this]
  show "get_best_offer A s c n cin cout = (Ok None, s')"
    by (simp add: get_best_offer_cases[OF g])
next
  fix r
  assume "fst (get_best_offer A s c n cin cout) = Ok (Some r)"
  from get_best_offer_Some[OF this] obtain hos s' p
    where sc: "scan_hotels (float_of A) n cin cout hos (sentinel, None) = Inr (p, Some r)"
    by blast
  from scan_pairs_first_min[OF scan_hotels_pairs[OF sc]]
  obtain x where "price_of (float_of A) (snd x) = Some p"
    and "mk_offer_record (fst x) (snd x) n cin cout = Some r" and lt: "flt p sentinel"
    by auto
  then have "float_of A (offerTotalAccommodationAmount r) = Some p"
    using mk_offer_record_total by (fastforce simp: price_of_def)
  then show "\<exists>p. float_of A (offerTotalAccommodationAmount r) = Some p \<and> flt p sentinel \<and> \<not> fle sentinel p"
    using lt flt_not_fle by blast
qed

lemma pricey_gather:
  "gather pricey () ''ATH'' 2 ''2025-06-01'' ''2025-06-03'' = (Inr [pricey_offer], ())"
  by (simp add: gather_def pricey_def offsets_def retry_step retry_stop mk_query_def batch_def)

lemma cheap_gather:
  "gather cheap () ''ATH'' 2 ''2025-06-01'' ''2025-06-03'' = (Inr three_offers, ())"
  by (simp add: gather_def cheap_def offsets_def retry_step retry_stop mk_query_def batch_def)

lemma cheap_result:
  "get_best_offer cheap () ''ATH'' 2 ''2025-06-01'' ''2025-06-03'' =
     (Ok (Some \<lparr>hotelName = ''Alpha'', offerTotalAccommodationAmount = ''95.50'',
                offerCurrency = ''EUR'', offerRoomDescription = ''Single'', people = 2,
                checkInDate = ''2025-06-01'', checkOutDate = ''2025-06-03''\<rparr>), ())"
  unfolding get_best_offer_cases[OF cheap_gather]
  by (simp add: three_offers_def cheap_def visit_def sentinel_def mk_offer_record_def)

theorem sentinel_bound_witness:
  "gather pricey () ''ATH'' 2 ''2025-06-01'' ''2025-06-03'' = (Inr [pricey_offer], ())
   \<and> get_best_offer pricey () ''ATH'' 2 ''2025-06-01'' ''2025-06-03'' = (Ok None, ())
   \<and> (\<exists>r. fst (get_best_offer cheap () ''ATH'' 2 ''2025-06-01'' ''2025-06-03'') = Ok (Some r)
         \<and> (\<exists>p. float_of cheap (offerTotalAccommodationAmount r) = Some p
               \<and> flt p sentinel \<and> \<not> fle sentinel p))"
proof -
  have o: "\<forall>ho\<in>set [pricey_offer]. offers ho \<noteq> None" by (simp add: pricey_offer_def)
  have p: "\<forall>x\<in>set (pairs [pricey_offer]). \<exists>p. price_of (float_of pricey) (snd x) = Some p \<and> fle sentinel p"
    by (simp add: pairs_def pricey_offer_def price_of_def pricey_def sentinel_def)
  have none: "get_best_offer pricey () ''ATH'' 2 ''2025-06-01'' ''2025-06-03'' = (Ok None, ())"
    using sentinel_bound[of pricey "()" "''ATH''" 2 "''2025-06-01''" "''2025-06-03''" "[pricey_offer]" "()"]
      pricey_gather o p by blast
  obtain r where r: "fst (get_best_offer cheap () ''ATH'' 2 ''2025-06-01'' ''2025-06-03'') = Ok (Some r)"
    by (simp add: cheap_result)
  have "\<exists>p. float_of cheap (offerTotalAccommodationAmount r) = Some p
          \<and> flt p sentinel \<and> \<not> fle sentinel p"
    using sentinel_bound[of cheap "()" "''ATH''" 2 "''2025-06-01''" "''2025-06-03''"] r by blast
  with r none pricey_gather show ?thesis by blast
qed

text \<open>
  Claim C3. The claim asks for the error object when the search yields no offer. With
  a hotel listed and an offer search that returns nothing on every attempt, the tool
  makes its ten attempts (five for each batch) and returns \<^verbatim>\<open>None\<close>, not
  \<^verbatim>\<open>{"error": "No Offers Found"}\<close>.
\<close>

theorem no_offers_returns_None:
  "get_best_offer always_empty 0 ''ATH'' 2 ''2025-06-01'' ''2025-06-03'' = (Ok None, 10)"
  by (simp add: get_best_offer_def gather_def always_empty_def offsets_def retry_step retry_stop)

text \<open>
  Claim C1, as the code has it. When the search raises nothing and at least one
  retrieved offer is priced below the initial \<open>bestprice\<close> of \<open>10^12\<close>, the tool returns the
  offer record built from one of the retrieved offers, the first in scan order among
  those of minimal price: no retrieved offer is strictly cheaper, its price is less than
  or equal to every retrieved price that is not NaN, and no earlier offer has a price
  less than or equal to its own.
\<close>

theorem best_offer_first_minimum:
  assumes g: "gather A s c n cin cout = (Inr hos, s')"
    and ok: "fst (get_best_offer A s c n cin cout) \<noteq> Error ''No Offers Found''"
    and some: "\<exists>x\<in>set (pairs hos). \<exists>p. price_of (float_of A) (snd x) = Some p \<and> flt p sentinel"
  shows "\<exists>pre x post p r.
           pairs hos = pre @ x # post
         \<and> get_best_offer A s c n cin cout = (Ok (Some r), s')
         \<and> mk_offer_record (fst x) (snd x) n cin cout = Some r
         \<and> price_of (float_of A) (snd x) = Some p
         \<and> float_of A (offerTotalAccommodationAmount r) = Some p
         \<and> (\<forall>y\<in>set pre. \<exists>q. price_of (float_of A) (snd y) = Some q \<and> \<not> fle q p)
         \<and> (\<forall>y\<in>set post. \<exists>q. price_of (float_of A) (snd y) = Some q \<and> \<not> flt q p)
         \<and> (\<forall>y\<in>set (pairs hos). \<exists>q. price_of (float_of A) (snd y) = Some q \<and> \<not> flt q p
               \<and> (q \<noteq> NaN \<longrightarrow> fle p q))"
proof -
  from ok obtain b where sc: "scan_hotels (float_of A) n cin cout hos (sentinel, None) = Inr b"
    and res: "get_best_offer A s c n cin cout = (Ok (snd b), s')"
    by (auto simp: get_best_offer_cases[OF g] split: sum.splits)
  from scan_pairs_first_min[OF scan_hotels_pairs[OF sc]]
  show ?thesis
  proof
    assume "b = (sentinel, None) \<and>
      (\<forall>x\<in>set (pairs hos). \<exists>q. price_of (float_of A) (snd x) = Some q \<and> \<not> flt q (fst (sentinel, None::offer_record option)))"
    with some have False by fastforce
    then show ?thesis ..
  next
    assume "\<exists>pre x post p r. pairs hos = pre @ x # post \<and> price_of (float_of A) (snd x) = Some p
            \<and> mk_offer_record (fst x) (snd x) n cin cout = Some r \<and> b = (p, Some r)
            \<and> flt p (fst (sentinel, None::offer_record option))
            \<and> (\<forall>y\<in>set pre. \<exists>q. price_of (float_of A) (snd y) = Some q \<and> \<not> fle q p)
            \<and> (\<forall>y\<in>set post. \<exists>q. price_of (float_of A) (snd y) = Some q \<and> \<not> flt q p)"
    then obtain pre x post p r where xs: "pairs hos = pre @ x # post"
      and p: "price_of (float_of A) (snd x) = Some p"
      and r: "mk_offer_record (fst x) (snd x) n cin cout = Some r"
      and b: "b = (p, Some r)" and lt: "flt p sentinel"
      and pre: "\<forall>y\<in>set pre. \<exists>q. price_of (float_of A) (snd y) = Some q \<and> \<not> fle q p"
      and post: "\<forall>y\<in>set post. \<exists>q. price_of (float_of A) (snd y) = Some q \<and> \<not> flt q p"
      by auto
    have pn: "p \<noteq> NaN" using flt_not_NaN[OF lt] by simp
    have tot: "float_of A (offerTotalAccommodationAmount r) = Some p"
      using mk_offer_record_total[OF r] p by (simp add: price_of_def)
    have xx: "\<not> flt p p" by (cases p) auto
    have all: "\<forall>y\<in>set (pairs hos). \<exists>q. price_of (float_of A) (snd y) = Some q \<and> \<not> flt q p
               \<and> (q \<noteq> NaN \<longrightarrow> fle p q)"
    proof
      fix y
      assume "y \<in> set (pairs hos)"
      then have "y \<in> set pre \<or> y = x \<or> y \<in> set post" using xs by auto
      then obtain q where q: "price_of (float_of A) (snd y) = Some q" and nl: "\<not> flt q p"
        using pre post p xx not_fle_not_flt by blast
      then show "\<exists>q. price_of (float_of A) (snd y) = Some q \<and> \<not> flt q p \<and> (q \<noteq> NaN \<longrightarrow> fle p q)"
        using not_flt_fle[OF nl _ pn] by blast
    qed
    have "get_best_offer A s c n cin cout = (Ok (Some r), s')" using res b by simp
    with xs r p tot pre post all show ?thesis by blast
  qed
qed

theorem best_offer_first_minimum_witness:
  "gather cheap () ''ATH'' 2 ''2025-06-01'' ''2025-06-03'' = (Inr three_offers, ())
   \<and> fst (get_best_offer cheap () ''ATH'' 2 ''2025-06-01'' ''2025-06-03'') \<noteq> Error ''No Offers Found''
   \<and> (\<exists>x\<in>set (pairs three_offers). \<exists>p. price_of (float_of cheap) (snd x) = Some p \<and> flt p sentinel)
   \<and> (\<exists>pre x post p r.
           pairs three_offers = pre @ x # post
         \<and> get_best_offer cheap () ''ATH'' 2 ''2025-06-01'' ''2025-06-03'' = (Ok (Some r), ())
         \<and> mk_offer_record (fst x) (snd x) 2 ''2025-06-01'' ''2025-06-03'' = Some r
         \<and> price_of (float_of cheap) (snd x) = Some p
         \<and> float_of cheap (offerTotalAccommodationAmount r) = Some p
         \<and> (\<forall>y\<in>set pre. \<exists>q. price_of (float_of cheap) (snd y) = Some q \<and> \<not> fle q p)
         \<and> (\<forall>y\<in>set post. \<exists>q. price_of (float_of cheap) (snd y) = Some q \<and> \<not> flt q p)
         \<and> (\<forall>y\<in>set (pairs three_offers). \<exists>q. price_of (float_of cheap) (snd y) = Some q \<and> \<not> flt q p
               \<and> (q \<noteq> NaN \<longrightarrow> fle p q)))
   \<and> hotelName (the (case fst (get_best_offer cheap () ''ATH'' 2 ''2025-06-01'' ''2025-06-03'') of Ok r \<Rightarrow> r | Error e \<Rightarrow> None)) = ''Alpha''"
proof -
  have ok: "fst (get_best_offer cheap () ''ATH'' 2 ''2025-06-01'' ''2025-06-03'') \<noteq> Error ''No Offers Found''"
    by (simp add: cheap_result)
  have some: "\<exists>x\<in>set (pairs three_offers). \<exists>p. price_of (float_of cheap) (snd x) = Some p \<and> flt p sentinel"
    by (simp add: pairs_def three_offers_def price_of_def cheap_def sentinel_def)
  show ?thesis
    using best_offer_first_minimum[OF cheap_gather ok some] cheap_gather ok some
    by (simp add: cheap_result)
qed

lemma undescribed_gather:
  "gather undescribed () ''ATH'' 2 ''2025-06-01'' ''2025-06-03'' = (Inr [undescribed_offer], ())"
  by (simp add: gather_def undescribed_def offsets_def retry_step retry_stop mk_query_def batch_def)

lemma with_nan_gather:
  "gather with_nan () ''ATH'' 2 ''2025-06-01'' ''2025-06-03'' = (Inr nan_offers, ())"
  by (simp add: gather_def with_nan_def offsets_def retry_step retry_stop mk_query_def batch_def)

text \<open>
  The claim as written, for every search with at least one retrieved offer, fails in
  three ways. The only offer retrieved is priced at \<open>10^12\<close>: the tool returns \<^verbatim>\<open>None\<close>. The
  only offer retrieved has no room description: building its record raises and the
  tool returns the error object. The first of two offers has the price NaN: the record
  of the second is returned, and its price is not less than or equal to NaN.
\<close>

theorem best_offer_counterexample:
  "fst (gather pricey () ''ATH'' 2 ''2025-06-01'' ''2025-06-03'') = Inr [pricey_offer]
   \<and> pairs [pricey_offer] \<noteq> []
   \<and> fst (get_best_offer pricey () ''ATH'' 2 ''2025-06-01'' ''2025-06-03'') = Ok None
   \<and> fst (gather undescribed () ''ATH'' 2 ''2025-06-01'' ''2025-06-03'') = Inr [undescribed_offer]
   \<and> pairs [undescribed_offer] \<noteq> []
   \<and> fst (get_best_offer undescribed () ''ATH'' 2 ''2025-06-01'' ''2025-06-03'')
       = Error ''No Offers Found''
   \<and> fst (gather with_nan () ''ATH'' 2 ''2025-06-01'' ''2025-06-03'') = Inr nan_offers
   \<and> map (price_of (float_of with_nan) \<circ> snd) (pairs nan_offers) = [Some NaN, Some (Fin 100)]
   \<and> fst (get_best_offer with_nan () ''ATH'' 2 ''2025-06-01'' ''2025-06-03'')
       = Ok (Some \<lparr>hotelName = ''Beta'', offerTotalAccommodationAmount = ''100.00'',
                    offerCurrency = ''EUR'', offerRoomDescription = ''Twin'', people = 2,
                    checkInDate = ''2025-06-01'', checkOutDate = ''2025-06-03''\<rparr>)
   \<and> \<not> fle (Fin 100) NaN"
proof -
  have a: "fst (get_best_offer pricey () ''ATH'' 2 ''2025-06-01'' ''2025-06-03'') = Ok None"
    unfolding get_best_offer_cases[OF pricey_gather]
    by (simp add: pricey_offer_def pricey_def visit_def sentinel_def)
  have b: "fst (get_best_offer undescribed () ''ATH'' 2 ''2025-06-01'' ''2025-06-03'')
       = Error ''No Offers Found''"
    unfolding get_best_offer_cases[OF undescribed_gather]
    by (simp add: undescribed_offer_def undescribed_def visit_def sentinel_def mk_offer_record_def)
  have c: "fst (get_best_offer with_nan () ''ATH'' 2 ''2025-06-01'' ''2025-06-03'')
       = Ok (Some \<lparr>hotelName = ''Beta'', offerTotalAccommodationAmount = ''100.00'',
                    offerCurrency = ''EUR'', offerRoomDescription = ''Twin'', people = 2,
                    checkInDate = ''2025-06-01'', checkOutDate = ''2025-06-03''\<rparr>)"
    unfolding get_best_offer_cases[OF with_nan_gather]
    by (simp add: nan_offers_def with_nan_def visit_def sentinel_def mk_offer_record_def)
  have d: "map (price_of (float_of with_nan) \<circ> snd) (pairs nan_offers) = [Some NaN, Some (Fin 100)]"
    by (simp add: pairs_def nan_offers_def price_of_def with_nan_def)
  have e: "pairs [pricey_offer] \<noteq> []" "pairs [undescribed_offer] \<noteq> []"
    by (simp_all add: pairs_def pricey_offer_def undescribed_offer_def)
  show ?thesis
    using a b c d e by (simp add: pricey_gather undescribed_gather with_nan_gather)
qed

subsection \<open>The batches queried\<close>







section \<open>Properties of the location resolution tool\<close>







text \<open>
  Claim C7. The claim asks for the error object when the final result set is empty.
  When the provider finds no city the filtered list and the fallback are both empty,
  and the tool returns the empty mapping \<^verbatim>\<open>{}\<close>, not
  \<^verbatim>\<open>{"error": "The city not found (no IATA code)."}\<close>.
\<close>

theorem empty_result_is_not_an_error:
  "get_iata_of_city (\<lambda>kw. Cities (Some [])) ''Atlantis'' ''GR'' = Ok []"
  by (simp add: get_iata_of_city_def)

section \<open>Properties of the currency conversion tool\<close>

text \<open>
  Claim C2. The claim asks for the error object whenever the rate provider fails. The
  tool has no \<^verbatim>\<open>try\<close>: when the request raises, when the body is not JSON, or when the
  body is a mapping without \<^verbatim>\<open>'conversion_rates'\<close> (the provider's answer to a currency it
  does not know), the exception leaves the tool.
\<close>

theorem conversion_lets_faults_through:
  "get_price_in_wanted_currency (\<lambda>url. RequestFails) fmul fstr key ''USD'' ''EUR'' (Fin 100)
     = Inl ConnectionError
   \<and> get_price_in_wanted_currency (\<lambda>url. BadBody) fmul fstr key ''USD'' ''EUR'' (Fin 100)
     = Inl JSONDecodeError
   \<and> get_price_in_wanted_currency (\<lambda>url. Body (Payload None)) fmul fstr key ''USD'' ''XXX'' (Fin 100)
     = Inl KeyError"
  by (simp add: get_price_in_wanted_currency_def)

section \<open>Properties of the agent loop\<close>








text \<open>
  Claim C9. When the first answer of the reasoning model is an assistant message
  without tool-call requests, the run ends at \<open>END\<close> after the one Reasoning phase (for
  every bound of at least one node), no Acting phase is run, and the content of that
  message is what \<^verbatim>\<open>predict\<close> returns.
\<close>

theorem no_tool_calls_one_reasoning_phase:
  assumes inp: "inputs message history = Inr state"
    and first: "model_invoke E w (messages state) = (Inr (AIMessage c []), w')"
  shows "run (Suc k) E thought_llm state w
           = Some (Inr (), [(thought_llm, state\<lparr>messages := messages state @ [AIMessage c []]\<rparr>)], w')
         \<and> predict (Suc k) E message history w = Some (Inr c)"
proof -
  have r: "run (Suc k) E thought_llm state w
           = Some (Inr (), [(thought_llm, state\<lparr>messages := messages state @ [AIMessage c []]\<rparr>)], w')"
    using first
    by (simp add: calling_model_def apply_update_def add_messages_def continue_or_end_def
        path_map_def)
  then show ?thesis using inp by (simp add: predict_def)
qed

lemma plain_inputs:
  "inputs ''hello'' [] =
     Inr \<lparr>messages = [SystemMessage (PyStr system_prompt), HumanMessage (PyStr ''hello'')],
          number_of_steps = None\<rparr>"
  by (simp add: inputs_def to_message_def add_messages_def)

theorem no_tool_calls_one_reasoning_phase_witness:
  "inputs ''hello'' [] =
     Inr \<lparr>messages = [SystemMessage (PyStr system_prompt), HumanMessage (PyStr ''hello'')],
          number_of_steps = None\<rparr>
   \<and> model_invoke asks_about_you 1 [SystemMessage (PyStr system_prompt), HumanMessage (PyStr ''hello'')]
       = (Inr (AIMessage (PyStr ''I can find hotel offers and convert prices.'') []), 2)
   \<and> map fst (fst (snd (the (run 25 asks_about_you thought_llm
         \<lparr>messages = [SystemMessage (PyStr system_prompt), HumanMessage (PyStr ''hello'')],
          number_of_steps = None\<rparr> 1)))) = [thought_llm]
   \<and> predict 25 asks_about_you ''hello'' [] 1
       = Some (Inr (PyStr ''I can find hotel offers and convert prices.''))"
proof -
  have m: "model_invoke asks_about_you 1
             (messages \<lparr>messages = [SystemMessage (PyStr system_prompt), HumanMessage (PyStr ''hello'')],
                number_of_steps = None\<rparr>)
       = (Inr (AIMessage (PyStr ''I can find hotel offers and convert prices.'') []), 2)"
    by (simp add: asks_about_you_def)
  have "25 = Suc 24" by simp
  then show ?thesis
    using no_tool_calls_one_reasoning_phase[OF plain_inputs m, of 24] plain_inputs m by simp
qed

text \<open>
  Claim C4. The claim asks that the loop end as soon as \<open>about_you\<close> has been dispatched,
  its result being the answer. The tool is registered with \<^verbatim>\<open>return_direct=True\<close>, but the
  graph never reads the flag: the edge after \<open>tool_set\<close> always leads to \<open>thought_llm\<close>. With
  a model that asks for \<open>about_you\<close> first, a second Reasoning phase is run on the tool's
  result and the answer is the model's second message.
\<close>

theorem about_you_goes_back_to_reasoning:
  "map fst (fst (snd (the (run 25 asks_about_you thought_llm
       \<lparr>messages = [SystemMessage (PyStr system_prompt), HumanMessage (PyStr ''what can you do?'')],
        number_of_steps = None\<rparr> 0))))
     = [thought_llm, tool_set, thought_llm]
   \<and> predict 25 asks_about_you ''what can you do?'' [] 0
       = Some (Inr (PyStr ''I can find hotel offers and convert prices.''))
   \<and> return_direct (the (tools_by_name asks_about_you ''about_you''))"
  by (simp add: predict_def inputs_def to_message_def add_messages_def numeral_eq_Suc
      calling_model_def calling_tools_def apply_update_def continue_or_end_def path_map_def
      tools_by_name_def tools_def asks_about_you_def)

end
